theory Spec2Isabelle
  imports Main
begin

section \<open>Python values shared by the models\<close>

text \<open>
  The sources are \<^verbatim>\<open>keras_nlp/src/models/task.py\<close>, \<^verbatim>\<open>preprocessor.py\<close> and
  \<^verbatim>\<open>mistral/mistral_tokenizer.py\<close>. Every \<^verbatim>\<open>raise\<close> of the sources is a
  \<^verbatim>\<open>ValueError\<close> carrying a message; an attribute read on \<^verbatim>\<open>None\<close> is Python's
  \<^verbatim>\<open>AttributeError\<close>. \<open>UnsupportedPresetError\<close> is raised only by the registry
  search \<^verbatim>\<open>find_subclass\<close>, whose body is not among the sources and is modelled
  from the specification. \<open>CollaboratorError\<close> stands for whatever an external
  collaborator (Keras saving, the preset loader) raises.
\<close>

type_synonym preset = string
type_synonym class_id = string
type_synonym path = string

datatype error =
    ValueError string
  | AttributeError string
  | UnsupportedPresetError preset class_id
  | CollaboratorError string

text \<open>The error of reading the attribute \<open>a\<close> of \<^verbatim>\<open>None\<close>.\<close>

definition none_has_no_attribute :: "string \<Rightarrow> error" where
  "none_has_no_attribute a =
     AttributeError ([CHR 0x27] @ ''NoneType'' @ [CHR 0x27] @ '' object has no attribute ''
                     @ [CHR 0x27] @ a @ [CHR 0x27])"

text \<open>\<^verbatim>\<open>str(filepath).endswith(suffix)\<close>\<close>

definition endswith :: "string \<Rightarrow> string \<Rightarrow> bool" where
  "endswith s suf \<longleftrightarrow>
     length suf \<le> length s \<and> drop (length s - length suf) s = suf"

section \<open>MistralTokenizer\<close>

text \<open>
  A vocabulary is the token-to-id mapping held by the SentencePiece proto, in the
  proto's order. An attribute of a Python object is either never assigned or holds a
  value; the value \<^verbatim>\<open>None\<close> of an id attribute is \<open>Assigned None\<close>.
\<close>

type_synonym vocabulary = "(string \<times> nat) list"

datatype 'a attr = Unassigned | Assigned 'a

record tokenizer =
  start_token :: string
  end_token :: string
  proto :: "vocabulary option"
  start_token_id :: "nat option attr"
  end_token_id :: "nat option attr"

text \<open>
  Modelled from the spec: \<^verbatim>\<open>SentencePieceTokenizer.set_proto\<close>,
  \<^verbatim>\<open>get_vocabulary\<close> and \<^verbatim>\<open>token_to_id\<close> of the parent class are not among the
  sources. The specification says that a non-\<^verbatim>\<open>None\<close> source builds the token-to-id
  mapping, that \<^verbatim>\<open>None\<close> clears it, and that the tokenizer exposes token-to-id
  lookups. The serialized proto is represented by the vocabulary it holds.
\<close>

definition SentencePieceTokenizer_set_proto ::
  "vocabulary option \<Rightarrow> tokenizer \<Rightarrow> tokenizer" where
  "SentencePieceTokenizer_set_proto p t = t\<lparr>proto := p\<rparr>"

definition get_vocabulary :: "tokenizer \<Rightarrow> string list" where
  "get_vocabulary t = (case proto t of None \<Rightarrow> [] | Some v \<Rightarrow> map fst v)"

definition token_to_id :: "tokenizer \<Rightarrow> string \<Rightarrow> nat option" where
  "token_to_id t token = (case proto t of None \<Rightarrow> None | Some v \<Rightarrow> map_of v token)"

text \<open>The message of the \<^verbatim>\<open>ValueError\<close> of \<^verbatim>\<open>MistralTokenizer.set_proto\<close>.\<close>

definition missing_token_message :: "string \<Rightarrow> string" where
  "missing_token_message token =
     ''Cannot find token `'' @ [CHR 0x27] @ token @ [CHR 0x27]
     @ ''` in the provided `vocabulary`. ''
     @ ''Please provide `'' @ [CHR 0x27] @ token @ [CHR 0x27]
     @ ''` in your `vocabulary` or use a ''
     @ ''pretrained `vocabulary` name.''"

text \<open>
  \<^verbatim>\<open>MistralTokenizer.set_proto\<close>. The call mutates \<^verbatim>\<open>self\<close>, and a raise leaves
  the mutations made so far in place, so the model returns the outcome together with
  the tokenizer after the call. The \<^verbatim>\<open>for\<close> loop raises at the first token of
  \<^verbatim>\<open>[self.start_token, self.end_token]\<close> that is not in the vocabulary.
\<close>

definition set_proto ::
  "vocabulary option \<Rightarrow> tokenizer \<Rightarrow> (error + unit) \<times> tokenizer" where
  "set_proto p t =
     (let t1 = SentencePieceTokenizer_set_proto p t in
      case p of
        Some _ \<Rightarrow>
          (case find (\<lambda>token. token \<notin> set (get_vocabulary t1))
                     [start_token t1, end_token t1] of
             Some token \<Rightarrow> (Inl (ValueError (missing_token_message token)), t1)
           | None \<Rightarrow>
               (let t2 = t1\<lparr>start_token_id := Assigned (token_to_id t1 (start_token t1))\<rparr>;
                    t3 = t2\<lparr>end_token_id := Assigned (token_to_id t2 (end_token t2))\<rparr>
                in (Inr (), t3)))
      | None \<Rightarrow>
          (let t2 = t1\<lparr>start_token_id := Assigned None\<rparr>;
               t3 = t2\<lparr>end_token_id := Assigned None\<rparr>
           in (Inr (), t3)))"

text \<open>
  \<^verbatim>\<open>MistralTokenizer.__init__\<close> assigns the two special tokens and then calls
  the parent constructor. \<open>new_tokenizer\<close> is the object between the two: no proto
  set, and neither id attribute assigned yet.
\<close>

definition new_tokenizer :: tokenizer where
  "new_tokenizer =
     \<lparr>start_token = ''<s>'', end_token = ''</s>'', proto = None,
      start_token_id = Unassigned, end_token_id = Unassigned\<rparr>"

section \<open>Collaborators and their calls\<close>

text \<open>
  The methods of \<^verbatim>\<open>Task\<close> and \<^verbatim>\<open>Preprocessor\<close> call code that is outside
  the sources: the Keras weight reader and writer, \<^verbatim>\<open>save_serialized_object\<close>, the
  preset loader, and \<^verbatim>\<open>save_to_preset\<close> of the backbone and of the tokenizer. Each
  such call is recorded, with its arguments, in the order it is made. An object is
  named by its Keras \<^verbatim>\<open>name\<close>; \<^verbatim>\<open>id(x)\<close> is a natural number.
\<close>

type_synonym kwargs = "(string \<times> string) list"
type_synonym tensor = "int list"
type_synonym config = string

datatype obj = TaskObj string | PreprocessorObj string

datatype event =
    SaveSerializedObject obj path string
  | SaveWeights obj path "nat set"
  | LoadWeights obj path "nat set"
  | TokenizerSaveToPreset string path
  | BackboneSaveToPreset string path
  | GetPresetLoader preset
  | CheckBackboneClass preset
  | LoadTask preset class_id bool kwargs
  | LoadPreprocessor preset class_id kwargs

text \<open>
  The part of the program state the methods can change: the values of the weight
  tensors, by identity, and the calls made to collaborators so far (oldest first).
  A file is written only by \<open>SaveSerializedObject\<close>, \<open>SaveWeights\<close> and the two
  \<open>SaveToPreset\<close> calls; weights are read only by \<open>LoadWeights\<close>.
\<close>

record world =
  heap :: "nat \<rightharpoonup> tensor"
  calls :: "event list"

text \<open>
  What the sources take from elsewhere, as parameters: the three file-name constants
  of \<^verbatim>\<open>preset_utils\<close>; whether a collaborator call raises (it may depend on
  everything done before); the weight values \<^verbatim>\<open>keras.saving.load_weights\<close> leaves
  behind; the backbone class a preset's configuration declares; and the
  \<^verbatim>\<open>presets\<close> of backbone and tokenizer classes.
\<close>

record env =
  TASK_CONFIG_FILE :: string
  TASK_WEIGHTS_FILE :: string
  PREPROCESSOR_CONFIG_FILE :: string
  raises :: "world \<Rightarrow> event \<Rightarrow> error option"
  loaded_heap :: "path \<Rightarrow> nat set \<Rightarrow> (nat \<rightharpoonup> tensor) \<Rightarrow> (nat \<rightharpoonup> tensor)"
  preset_backbone_cls :: "preset \<Rightarrow> class_id"
  backbone_presets :: "class_id \<Rightarrow> (string \<rightharpoonup> config)"
  tokenizer_presets :: "class_id \<Rightarrow> (string \<rightharpoonup> config)"

text \<open>
  A method is a function from the state before to its outcome (the raised error or
  the returned value) and the state after. \<open>and_then\<close> is sequencing: a raise skips
  everything that follows.
\<close>

type_synonym 'a action = "world \<Rightarrow> (error + 'a) \<times> world"

definition ret :: "'a \<Rightarrow> 'a action" where
  "ret x = (\<lambda>w. (Inr x, w))"

definition raise :: "error \<Rightarrow> 'a action" where
  "raise e = (\<lambda>w. (Inl e, w))"

definition lift :: "error + 'a \<Rightarrow> 'a action" where
  "lift r = (\<lambda>w. (r, w))"

definition and_then :: "'a action \<Rightarrow> ('a \<Rightarrow> 'b action) \<Rightarrow> 'b action" where
  "and_then m f =
     (\<lambda>w. case m w of (Inl e, w') \<Rightarrow> (Inl e, w') | (Inr x, w') \<Rightarrow> f x w')"

definition collab :: "env \<Rightarrow> event \<Rightarrow> unit action" where
  "collab env ev =
     (\<lambda>w. let w' = w\<lparr>calls := calls w @ [ev]\<rparr>
          in case raises env w ev of Some e \<Rightarrow> (Inl e, w') | None \<Rightarrow> (Inr (), w'))"

text \<open>
  \<^verbatim>\<open>os.path.join(a, b)\<close> of \<^verbatim>\<open>posixpath\<close> for two components.
\<close>

definition os_path_join :: "path \<Rightarrow> path \<Rightarrow> path" where
  "os_path_join a b =
     (if b \<noteq> [] \<and> hd b = CHR ''/'' then b
      else if a = [] \<or> last a = CHR ''/'' then a @ b
      else a @ ''/'' @ b)"

section \<open>Preprocessor and Task objects\<close>

record backbone_obj =
  bb_name :: string
  bb_weights :: "nat list"
  flatten_layers :: "nat list"

record preprocessor_obj =
  pp_name :: string
  tokenizer :: "string option"

record task =
  task_name :: string
  task_str :: string
  backbone :: "backbone_obj option"
  preprocessor :: "preprocessor_obj option"
  weights :: "nat list"

text \<open>
  \<^verbatim>\<open>Preprocessor.save_to_preset\<close>: the configuration is written, then the tokenizer
  saves itself; \<^verbatim>\<open>self.tokenizer\<close> may be \<^verbatim>\<open>None\<close>.
\<close>

definition Preprocessor_save_to_preset ::
  "env \<Rightarrow> preprocessor_obj \<Rightarrow> path \<Rightarrow> unit action" where
  "Preprocessor_save_to_preset env self preset_dir =
     and_then (collab env (SaveSerializedObject (PreprocessorObj (pp_name self))
                             preset_dir (PREPROCESSOR_CONFIG_FILE env)))
       (\<lambda>_. case tokenizer self of
               None \<Rightarrow> raise (none_has_no_attribute ''save_to_preset'')
             | Some tk \<Rightarrow> collab env (TokenizerSaveToPreset tk preset_dir))"

text \<open>
  \<^verbatim>\<open>set(id(w) for w in self.backbone._flatten_layers())\<close>, as computed by
  \<^verbatim>\<open>load_task_weights\<close> and \<^verbatim>\<open>save_task_weights\<close>.
\<close>

definition backbone_layer_ids :: "task \<Rightarrow> error + nat set" where
  "backbone_layer_ids self =
     (case backbone self of
        None \<Rightarrow> Inl (none_has_no_attribute ''_flatten_layers'')
      | Some b \<Rightarrow> Inr (set (flatten_layers b)))"

text \<open>\<^verbatim>\<open>Task.has_task_weights\<close>\<close>

definition has_task_weights :: "task \<Rightarrow> error + bool" where
  "has_task_weights self =
     (let task_weight_ids = set (weights self) in
      case backbone self of
        None \<Rightarrow> Inl (none_has_no_attribute ''weights'')
      | Some b \<Rightarrow>
          (let backbone_weight_ids = set (bb_weights b)
           in Inr (\<not> task_weight_ids \<subseteq> backbone_weight_ids)))"

text \<open>
  \<^verbatim>\<open>Task.load_task_weights\<close>. The message of the source is not an f-string, so it
  holds the text \<^verbatim>\<open>{filepath}\<close> as it stands.
\<close>

definition load_suffix_message :: string where
  "load_suffix_message =
     ''The filename must end in `.weights.h5`. Received: filepath={filepath}''"

definition load_task_weights :: "env \<Rightarrow> task \<Rightarrow> path \<Rightarrow> unit action" where
  "load_task_weights env self filepath =
     (if \<not> endswith filepath ''.weights.h5'' then raise (ValueError load_suffix_message)
      else
        and_then (lift (backbone_layer_ids self)) (\<lambda>ids.
        and_then (collab env (LoadWeights (TaskObj (task_name self)) filepath ids)) (\<lambda>_.
          (\<lambda>w. (Inr (), w\<lparr>heap := loaded_heap env filepath ids (heap w)\<rparr>)))))"

text \<open>\<^verbatim>\<open>Task.save_task_weights\<close>\<close>

definition save_suffix_message :: "path \<Rightarrow> string" where
  "save_suffix_message filepath =
     ''The filename must end in `.weights.h5`. '' @ ''Received: filepath='' @ filepath"

definition nothing_to_save_message :: "task \<Rightarrow> string" where
  "nothing_to_save_message self =
     ''Task '' @ task_str self @ '' has no weights not in the `backbone`. ''
     @ ''`save_task_weights()` has nothing to save.''"

definition save_task_weights :: "env \<Rightarrow> task \<Rightarrow> path \<Rightarrow> unit action" where
  "save_task_weights env self filepath =
     (if \<not> endswith filepath ''.weights.h5''
      then raise (ValueError (save_suffix_message filepath))
      else
        and_then (lift (backbone_layer_ids self)) (\<lambda>ids.
        and_then (lift (has_task_weights self)) (\<lambda>has.
          if \<not> has then raise (ValueError (nothing_to_save_message self))
          else collab env (SaveWeights (TaskObj (task_name self)) filepath ids))))"

text \<open>\<^verbatim>\<open>Task.save_to_preset\<close>\<close>

definition no_preprocessor_message :: string where
  "no_preprocessor_message =
     ''Cannot save `task` to preset: `Preprocessor` is not initialized.''"

definition save_to_preset :: "env \<Rightarrow> task \<Rightarrow> path \<Rightarrow> unit action" where
  "save_to_preset env self preset_dir =
     (case preprocessor self of
        None \<Rightarrow> raise (ValueError no_preprocessor_message)
      | Some p \<Rightarrow>
          and_then (collab env (SaveSerializedObject (TaskObj (task_name self))
                                  preset_dir (TASK_CONFIG_FILE env))) (\<lambda>_.
          and_then (lift (has_task_weights self)) (\<lambda>has.
          and_then (if has
                    then save_task_weights env self
                           (os_path_join preset_dir (TASK_WEIGHTS_FILE env))
                    else ret ()) (\<lambda>_.
          and_then (Preprocessor_save_to_preset env p preset_dir) (\<lambda>_.
            case backbone self of
              None \<Rightarrow> raise (none_has_no_attribute ''save_to_preset'')
            | Some b \<Rightarrow> collab env (BackboneSaveToPreset (bb_name b) preset_dir))))))"

section \<open>Classes, presets and \<^verbatim>\<open>from_preset\<close>\<close>

text \<open>
  A class, as the class methods see it: its name (its identity), what
  \<^verbatim>\<open>list_presets(cls)\<close> returns (a fresh dictionary of the presets registered on the
  class), its attributes \<^verbatim>\<open>backbone_cls\<close> and \<^verbatim>\<open>tokenizer_cls\<close> (the name of the
  class, or \<^verbatim>\<open>None\<close>), and what \<^verbatim>\<open>list_subclasses(cls)\<close> returns: every registered
  subclass, direct or not, in registration order. \<^verbatim>\<open>list_presets\<close> and
  \<^verbatim>\<open>list_subclasses\<close> are functions of \<^verbatim>\<open>preset_utils\<close>, outside the sources; their
  results are part of the class value. A dictionary is a map; \<^verbatim>\<open>d.update(e)\<close> is
  \<open>d ++ e\<close>.
\<close>

datatype klass =
  Klass (cname: class_id) (list_presets: "string \<rightharpoonup> config")
        (backbone_cls: "class_id option") (tokenizer_cls: "class_id option")
        (list_subclasses: "klass list")

text \<open>The class property \<^verbatim>\<open>Task.presets\<close>\<close>

fun Task_presets :: "env \<Rightarrow> klass \<Rightarrow> (string \<rightharpoonup> config)" where
  "Task_presets env (Klass n registered bcls tcls subclasses) =
     (let presets = registered;
          presets = (case bcls of None \<Rightarrow> presets
                     | Some b \<Rightarrow> presets ++ backbone_presets env b)
      in foldl (\<lambda>presets subclass. presets ++ Task_presets env subclass)
               presets subclasses)"

text \<open>The class property \<^verbatim>\<open>Preprocessor.presets\<close>\<close>

fun Preprocessor_presets :: "env \<Rightarrow> klass \<Rightarrow> (string \<rightharpoonup> config)" where
  "Preprocessor_presets env (Klass n registered bcls tcls subclasses) =
     (let presets = registered;
          presets = (case tcls of None \<Rightarrow> presets
                     | Some t \<Rightarrow> presets ++ tokenizer_presets env t)
      in foldl (\<lambda>presets subclass. presets ++ Preprocessor_presets env subclass)
               presets subclasses)"

text \<open>
  Modelled from the spec: \<^verbatim>\<open>find_subclass(preset, cls, backbone_cls)\<close> of
  \<^verbatim>\<open>preset_utils\<close> is not among the sources. The specification: enumerate all known
  subclasses (transitively) of the invoking class and select the one whose declared
  backbone family equals the preset's; zero matches is \<open>UnsupportedPresetError\<close>,
  naming the preset and the expected family; among several matches the first
  registered is taken.
\<close>

definition find_subclass :: "preset \<Rightarrow> klass \<Rightarrow> class_id \<Rightarrow> error + klass" where
  "find_subclass preset cls backbone_class =
     (case filter (\<lambda>x. backbone_cls x = Some backbone_class) (list_subclasses cls) of
        [] \<Rightarrow> Inl (UnsupportedPresetError preset backbone_class)
      | x # _ \<Rightarrow> Inr x)"

text \<open>
  Modelled from the spec: the loader returned by \<^verbatim>\<open>get_preset_loader(preset)\<close> and
  its methods are not among the sources. The specification: the identifier is
  resolved to a loader that reads the preset's configuration; the declared backbone
  family is read from it; the resolved class is constructed with the auxiliary
  arguments, optionally skipping weight loading, and the constructed instance is
  returned. Each of the three steps is a collaborator call, which may raise. A loader
  is identified by its preset.
\<close>

datatype model_instance =
    TaskInstance class_id preset bool kwargs
  | PreprocessorInstance class_id preset kwargs

fun instance_of :: "model_instance \<Rightarrow> class_id" where
  "instance_of (TaskInstance c _ _ _) = c"
| "instance_of (PreprocessorInstance c _ _) = c"

definition get_preset_loader :: "env \<Rightarrow> preset \<Rightarrow> preset action" where
  "get_preset_loader env preset =
     and_then (collab env (GetPresetLoader preset)) (\<lambda>_. ret preset)"

definition check_backbone_class :: "env \<Rightarrow> preset \<Rightarrow> class_id action" where
  "check_backbone_class env loader =
     and_then (collab env (CheckBackboneClass loader))
       (\<lambda>_. ret (preset_backbone_cls env loader))"

definition load_task :: "env \<Rightarrow> preset \<Rightarrow> klass \<Rightarrow> bool \<Rightarrow> kwargs \<Rightarrow> model_instance action" where
  "load_task env loader cls load_weights kwargs =
     and_then (collab env (LoadTask loader (cname cls) load_weights kwargs))
       (\<lambda>_. ret (TaskInstance (cname cls) loader load_weights kwargs))"

definition load_preprocessor :: "env \<Rightarrow> preset \<Rightarrow> klass \<Rightarrow> kwargs \<Rightarrow> model_instance action" where
  "load_preprocessor env loader cls kwargs =
     and_then (collab env (LoadPreprocessor loader (cname cls) kwargs))
       (\<lambda>_. ret (PreprocessorInstance (cname cls) loader kwargs))"

text \<open>\<^verbatim>\<open>Task.from_preset\<close>. The test \<^verbatim>\<open>cls == Task\<close> compares class identities.\<close>

definition Task_direct_call_message :: string where
  "Task_direct_call_message =
     ''Do not call `Task.from_preset()` directly. Instead call a ''
     @ ''particular task class, e.g. ''
     @ ''`keras_nlp.models.Classifier.from_preset()` or ''
     @ ''`keras_nlp.models.BertClassifier.from_preset()`.''"

definition Task_from_preset ::
  "env \<Rightarrow> klass \<Rightarrow> preset \<Rightarrow> bool \<Rightarrow> kwargs \<Rightarrow> model_instance action" where
  "Task_from_preset env cls preset load_weights kwargs =
     (if cname cls = ''Task'' then raise (ValueError Task_direct_call_message)
      else
        and_then (get_preset_loader env preset) (\<lambda>loader.
        and_then (check_backbone_class env loader) (\<lambda>backbone_class.
        and_then (if backbone_cls cls \<noteq> Some backbone_class
                  then lift (find_subclass preset cls backbone_class)
                  else ret cls) (\<lambda>cls.
          load_task env loader cls load_weights kwargs))))"

text \<open>\<^verbatim>\<open>Preprocessor.from_preset\<close>\<close>

definition Preprocessor_direct_call_message :: string where
  "Preprocessor_direct_call_message =
     ''Do not call `Preprocessor.from_preset()` directly. Instead call a ''
     @ ''choose a particular task class, e.g. ''
     @ ''`keras_nlp.models.BertPreprocessor.from_preset()`.''"

definition Preprocessor_from_preset ::
  "env \<Rightarrow> klass \<Rightarrow> preset \<Rightarrow> kwargs \<Rightarrow> model_instance action" where
  "Preprocessor_from_preset env cls preset kwargs =
     (if cname cls = ''Preprocessor''
      then raise (ValueError Preprocessor_direct_call_message)
      else
        and_then (get_preset_loader env preset) (\<lambda>loader.
        and_then (check_backbone_class env loader) (\<lambda>backbone_class.
        and_then (if backbone_cls cls \<noteq> Some backbone_class
                  then lift (find_subclass preset cls backbone_class)
                  else ret cls) (\<lambda>cls.
          load_preprocessor env loader cls kwargs))))"

section \<open>Example values\<close>

text \<open>
  Concrete classes, objects and collaborators on which the theorems below are
  instantiated. In \<open>example_env\<close> no collaborator raises, and the preset read by the
  loader declares the backbone class \<^verbatim>\<open>DistilBertBackbone\<close>, as the preset of
  \<^verbatim>\<open>convert_distilbert_test.py\<close> does. The weight with identity 2 of
  \<open>example_world\<close> holds the same value as the weight with identity 1.
\<close>

definition configured_tokenizer :: tokenizer where
  "configured_tokenizer =
     new_tokenizer\<lparr>proto := Some [(''<s>'', 0), (''</s>'', 1), (''hi'', 2)],
                   start_token_id := Assigned (Some 0),
                   end_token_id := Assigned (Some 1)\<rparr>"

definition distilbert_preset :: preset where
  "distilbert_preset = ''hf://distilbert/distilbert-base-uncased''"

definition example_env :: env where
  "example_env =
     \<lparr>TASK_CONFIG_FILE = ''task.json'',
      TASK_WEIGHTS_FILE = ''task.weights.h5'',
      PREPROCESSOR_CONFIG_FILE = ''preprocessor.json'',
      raises = (\<lambda>_ _. None),
      loaded_heap = (\<lambda>_ _ h. h),
      preset_backbone_cls = (\<lambda>_. ''DistilBertBackbone''),
      backbone_presets =
        (\<lambda>c. if c = ''BertBackbone'' then [''bert_base_en'' \<mapsto> ''backbone entry'']
             else Map.empty),
      tokenizer_presets =
        (\<lambda>c. if c = ''BertTokenizer'' then [''bert_base_en'' \<mapsto> ''tokenizer entry'']
             else Map.empty)\<rparr>"

definition BertClassifier :: klass where
  "BertClassifier =
     Klass ''BertClassifier'' [''bert_base_en'' \<mapsto> ''classifier entry'']
       (Some ''BertBackbone'') None []"

definition DistilBertClassifier :: klass where
  "DistilBertClassifier =
     Klass ''DistilBertClassifier'' [''distil_bert_sst2'' \<mapsto> ''classifier entry'']
       (Some ''DistilBertBackbone'') None []"

definition Classifier :: klass where
  "Classifier =
     Klass ''Classifier'' Map.empty None None [BertClassifier, DistilBertClassifier]"

definition BertPreprocessor :: klass where
  "BertPreprocessor =
     Klass ''BertPreprocessor'' [''bert_base_en'' \<mapsto> ''preprocessor entry'']
       (Some ''BertBackbone'') (Some ''BertTokenizer'') []"

definition DistilBertPreprocessor :: klass where
  "DistilBertPreprocessor =
     Klass ''DistilBertPreprocessor'' [''distil_bert_sst2'' \<mapsto> ''preprocessor entry'']
       (Some ''DistilBertBackbone'') (Some ''DistilBertTokenizer'') []"

definition TextClassifierPreprocessor :: klass where
  "TextClassifierPreprocessor =
     Klass ''TextClassifierPreprocessor'' Map.empty None None
       [BertPreprocessor, DistilBertPreprocessor]"

definition example_backbone :: backbone_obj where
  "example_backbone =
     \<lparr>bb_name = ''bert_backbone'', bb_weights = [0, 1], flatten_layers = [10, 11]\<rparr>"

definition example_preprocessor :: preprocessor_obj where
  "example_preprocessor =
     \<lparr>pp_name = ''bert_preprocessor'', tokenizer = Some ''bert_tokenizer''\<rparr>"

definition backbone_only_task :: task where
  "backbone_only_task =
     \<lparr>task_name = ''bert_classifier'', task_str = ''<BertClassifier>'',
      backbone = Some example_backbone, preprocessor = Some example_preprocessor,
      weights = [0, 1]\<rparr>"

definition head_task :: task where
  "head_task = backbone_only_task\<lparr>weights := [0, 1, 2]\<rparr>"

definition example_world :: world where
  "example_world = \<lparr>heap = [0 \<mapsto> [1], 1 \<mapsto> [2], 2 \<mapsto> [2]], calls = []\<rparr>"

lemmas example_defs = example_env_def BertClassifier_def DistilBertClassifier_def
  Classifier_def BertPreprocessor_def DistilBertPreprocessor_def
  TextClassifierPreprocessor_def example_backbone_def example_preprocessor_def
  backbone_only_task_def head_task_def example_world_def


section \<open>Sequencing and file names\<close>

lemma and_then_apply:
  "and_then m f w = (case m w of (Inl e, w') \<Rightarrow> (Inl e, w') | (Inr x, w') \<Rightarrow> f x w')"
  by (simp add: and_then_def)

lemma and_then_ret: "and_then (ret x) f = f x"
  by (simp add: and_then_def ret_def)

lemma and_then_raise: "and_then (raise e) f = raise e"
  by (simp add: and_then_def raise_def fun_eq_iff)

lemma collab_quiet:
  "raises env w ev = None \<Longrightarrow> collab env ev w = (Inr (), w\<lparr>calls := calls w @ [ev]\<rparr>)"
  by (simp add: collab_def)

lemma collab_raises:
  "raises env w ev = Some e \<Longrightarrow> collab env ev w = (Inl e, w\<lparr>calls := calls w @ [ev]\<rparr>)"
  by (simp add: collab_def)

text \<open>\<open>endswith\<close> is the suffix relation on strings.\<close>

lemma endswith_iff: "endswith s suf \<longleftrightarrow> (\<exists>pre. s = pre @ suf)"
proof
  assume "endswith s suf"
  then have "s = take (length s - length suf) s @ suf"
    by (metis append_take_drop_id endswith_def)
  then show "\<exists>pre. s = pre @ suf" ..
next
  assume "\<exists>pre. s = pre @ suf"
  then show "endswith s suf" by (auto simp: endswith_def)
qed

text \<open>Joining a directory in front of a file name keeps the suffix of the file name.\<close>

lemma endswith_os_path_join:
  "endswith b suf \<Longrightarrow> endswith (os_path_join a b) suf"
  by (auto simp: endswith_iff os_path_join_def)

section \<open>MistralTokenizer: configuration\<close>

text \<open>
  C4. For every vocabulary that contains both special tokens \<^verbatim>\<open><s>\<close> and \<^verbatim>\<open></s>\<close>,
  configuring the tokenizer with it succeeds, whatever the tokenizer's state was;
  afterwards the vocabulary is the configured one and \<^verbatim>\<open>start_token_id\<close> and
  \<^verbatim>\<open>end_token_id\<close> hold the ids the vocabulary gives to \<^verbatim>\<open><s>\<close> and \<^verbatim>\<open></s>\<close>.
\<close>

theorem set_proto_resolves_ids:
  assumes "start_token t = ''<s>''" and "end_token t = ''</s>''"
    and "''<s>'' \<in> fst ` set V" and "''</s>'' \<in> fst ` set V"
  shows "\<exists>i j. map_of V ''<s>'' = Some i \<and> map_of V ''</s>'' = Some j \<and>
           set_proto (Some V) t =
             (Inr (), t\<lparr>proto := Some V,
                        start_token_id := Assigned (Some i),
                        end_token_id := Assigned (Some j)\<rparr>)"
proof -
  from assms(3) obtain i where i: "map_of V ''<s>'' = Some i"
    by (metis domD dom_map_of_conv_image_fst)
  from assms(4) obtain j where j: "map_of V ''</s>'' = Some j"
    by (metis domD dom_map_of_conv_image_fst)
  have "set_proto (Some V) t =
          (Inr (), t\<lparr>proto := Some V,
                     start_token_id := Assigned (Some i),
                     end_token_id := Assigned (Some j)\<rparr>)"
    using assms i j
    by (simp add: set_proto_def SentencePieceTokenizer_set_proto_def
        get_vocabulary_def token_to_id_def)
  with i j show ?thesis by blast
qed

text \<open>
  The scenario of the specification: with the vocabulary
  \<^verbatim>\<open>{"<s>": 0, "</s>": 1, "hi": 2}\<close> a new tokenizer gets \<^verbatim>\<open>start_token_id == 0\<close>
  and \<^verbatim>\<open>end_token_id == 1\<close>.
\<close>

theorem set_proto_resolves_ids_witness:
  "set_proto (Some [(''<s>'', 0), (''</s>'', 1), (''hi'', 2)]) new_tokenizer =
     (Inr (), new_tokenizer\<lparr>proto := Some [(''<s>'', 0), (''</s>'', 1), (''hi'', 2)],
                            start_token_id := Assigned (Some 0),
                            end_token_id := Assigned (Some 1)\<rparr>)"
  using set_proto_resolves_ids
    [where t = new_tokenizer and V = "[(''<s>'', 0), (''</s>'', 1), (''hi'', 2)]"]
  by (simp add: new_tokenizer_def)

text \<open>
  C5. For every vocabulary that lacks \<^verbatim>\<open><s>\<close> or \<^verbatim>\<open></s>\<close>, configuring the tokenizer
  with it raises the \<^verbatim>\<open>ValueError\<close> whose message names the first missing token
  and the two remedies (provide the token in the vocabulary, or use a pretrained
  vocabulary); the call assigns neither \<^verbatim>\<open>start_token_id\<close> nor \<^verbatim>\<open>end_token_id\<close>:
  both attributes are what they were before the call.
\<close>

theorem set_proto_missing_token:
  assumes "start_token t = ''<s>''" and "end_token t = ''</s>''"
    and "''<s>'' \<notin> fst ` set V \<or> ''</s>'' \<notin> fst ` set V"
  shows "\<exists>token t'.
           set_proto (Some V) t = (Inl (ValueError (missing_token_message token)), t') \<and>
           token = (if ''<s>'' \<notin> fst ` set V then ''<s>'' else ''</s>'') \<and>
           token \<notin> fst ` set V \<and>
           missing_token_message token =
             ''Cannot find token `'' @ [CHR 0x27] @ token @ [CHR 0x27]
             @ ''` in the provided `vocabulary`. ''
             @ ''Please provide `'' @ [CHR 0x27] @ token @ [CHR 0x27]
             @ ''` in your `vocabulary` or use a ''
             @ ''pretrained `vocabulary` name.'' \<and>
           start_token_id t' = start_token_id t \<and>
           end_token_id t' = end_token_id t"
  using assms
  by (auto simp add: set_proto_def SentencePieceTokenizer_set_proto_def
      get_vocabulary_def missing_token_message_def)

text \<open>
  The scenario of the specification: the vocabulary \<^verbatim>\<open>{"</s>": 0, "hi": 1}\<close> lacks
  \<^verbatim>\<open><s>\<close>. On a new tokenizer both ids stay unassigned; on a tokenizer configured
  before, both ids stay what that configuration made them.
\<close>

theorem set_proto_missing_token_witness:
  "fst (set_proto (Some [(''</s>'', 0), (''hi'', 1)]) new_tokenizer)
       = Inl (ValueError (missing_token_message ''<s>''))
   \<and> start_token_id (snd (set_proto (Some [(''</s>'', 0), (''hi'', 1)]) new_tokenizer))
       = Unassigned
   \<and> end_token_id (snd (set_proto (Some [(''</s>'', 0), (''hi'', 1)]) new_tokenizer))
       = Unassigned
   \<and> start_token_id (snd (set_proto (Some [(''<s>'', 5)]) configured_tokenizer))
       = Assigned (Some 0)
   \<and> end_token_id (snd (set_proto (Some [(''<s>'', 5)]) configured_tokenizer))
       = Assigned (Some 1)"
  using set_proto_missing_token
      [where t = new_tokenizer and V = "[(''</s>'', 0), (''hi'', 1)]"]
    set_proto_missing_token
      [where t = configured_tokenizer and V = "[(''<s>'', 5)]"]
  by (auto simp add: new_tokenizer_def configured_tokenizer_def)

text \<open>
  C6. Configuring with \<^verbatim>\<open>None\<close> succeeds from every tokenizer state: it raises
  nothing, clears the vocabulary, and sets both \<^verbatim>\<open>start_token_id\<close> and
  \<^verbatim>\<open>end_token_id\<close> to \<^verbatim>\<open>None\<close>.
\<close>

theorem set_proto_None_resets:
  "set_proto None t =
     (Inr (), t\<lparr>proto := None, start_token_id := Assigned None,
                end_token_id := Assigned None\<rparr>)
   \<and> get_vocabulary (snd (set_proto None t)) = []"
  by (simp add: set_proto_def SentencePieceTokenizer_set_proto_def get_vocabulary_def)

theorem set_proto_None_resets_witness:
  "set_proto None configured_tokenizer =
     (Inr (), new_tokenizer\<lparr>start_token_id := Assigned None,
                            end_token_id := Assigned None\<rparr>)"
  using set_proto_None_resets [where t = configured_tokenizer]
  by (simp add: configured_tokenizer_def new_tokenizer_def)

section \<open>Task: task-specific weights\<close>

lemma has_task_weights_iff:
  "backbone t = Some b \<Longrightarrow>
   has_task_weights t = Inr (\<exists>w \<in> set (weights t). w \<notin> set (bb_weights b))"
  by (auto simp: has_task_weights_def)

text \<open>
  C7. For every task with a backbone attached, \<^verbatim>\<open>has_task_weights()\<close> returns true
  exactly when the set of identities of the task's weights is not a subset of the set
  of identities of the backbone's weights, that is, when some weight of the task is,
  as an object, none of the backbone's weights; the values the tensors hold are not
  read. It returns false for a task whose weights are exactly the backbone's, and
  true once the weights of a head layer (new objects, so with identities the backbone
  does not have) are there as well.
\<close>

theorem has_task_weights_by_identity:
  "backbone t = Some b \<longrightarrow>
     has_task_weights t = Inr (\<not> set (weights t) \<subseteq> set (bb_weights b))
     \<and> has_task_weights t = Inr (\<exists>w \<in> set (weights t). w \<notin> set (bb_weights b))
     \<and> (weights t = bb_weights b \<longrightarrow> has_task_weights t = Inr False)
     \<and> (weights t = bb_weights b @ head \<longrightarrow> head \<noteq> [] \<longrightarrow>
          set head \<inter> set (bb_weights b) = {} \<longrightarrow> has_task_weights t = Inr True)"
proof (intro impI conjI)
  assume b: "backbone t = Some b"
  show "has_task_weights t = Inr (\<not> set (weights t) \<subseteq> set (bb_weights b))"
    using b by (simp add: has_task_weights_def)
  show "has_task_weights t = Inr (\<exists>w \<in> set (weights t). w \<notin> set (bb_weights b))"
    using b by (rule has_task_weights_iff)
  show "has_task_weights t = Inr False" if "weights t = bb_weights b"
    using b that by (simp add: has_task_weights_def)
  show "has_task_weights t = Inr True"
    if "weights t = bb_weights b @ head" "head \<noteq> []"
      "set head \<inter> set (bb_weights b) = {}"
  proof -
    from that(2) obtain x where "x \<in> set head" by (cases head) auto
    with that(3) have "x \<notin> set (bb_weights b)" by auto
    with \<open>x \<in> set head\<close> that(1) b show ?thesis
      by (auto simp: has_task_weights_def)
  qed
qed

text \<open>
  The head weight of \<open>head_task\<close> has identity 2 and holds the value the backbone's
  weight 1 holds: the task has task-specific weights all the same.
\<close>

theorem has_task_weights_by_identity_witness:
  "has_task_weights backbone_only_task = Inr False
   \<and> has_task_weights head_task = Inr True
   \<and> heap example_world 2 = heap example_world 1"
  using
    has_task_weights_by_identity
      [where t = backbone_only_task and b = example_backbone and head = "[]"]
    has_task_weights_by_identity
      [where t = head_task and b = example_backbone and head = "[2]"]
  by (simp add: example_defs)

text \<open>
  C8. For every task and every path: \<^verbatim>\<open>save_task_weights\<close> on a path that does not
  end in \<^verbatim>\<open>.weights.h5\<close> raises the \<^verbatim>\<open>ValueError\<close> about the file name, and on a
  path with the suffix, when the task has no task-specific weights, it raises the
  \<^verbatim>\<open>ValueError\<close> saying there is nothing to save. In both cases the state after the
  call is the state before it: no collaborator was called, so no file was written.
\<close>

theorem save_task_weights_preconditions:
  "(\<not> endswith filepath ''.weights.h5'' \<longrightarrow>
      save_task_weights env self filepath w =
        (Inl (ValueError (save_suffix_message filepath)), w))
   \<and> (endswith filepath ''.weights.h5'' \<longrightarrow> has_task_weights self = Inr False \<longrightarrow>
      save_task_weights env self filepath w =
        (Inl (ValueError (nothing_to_save_message self)), w))"
  by (auto simp: save_task_weights_def raise_def and_then_apply lift_def
      backbone_layer_ids_def has_task_weights_def split: option.splits)

text \<open>The scenario of the specification: the path \<^verbatim>\<open>weights.bin\<close>.\<close>

theorem save_task_weights_preconditions_witness:
  "save_task_weights example_env head_task ''weights.bin'' example_world
     = (Inl (ValueError (save_suffix_message ''weights.bin'')), example_world)
   \<and> save_task_weights example_env backbone_only_task ''task.weights.h5'' example_world
     = (Inl (ValueError (nothing_to_save_message backbone_only_task)), example_world)"
  using
    save_task_weights_preconditions
      [where filepath = "''weights.bin''" and env = example_env
        and self = head_task and w = example_world]
    save_task_weights_preconditions
      [where filepath = "''task.weights.h5''" and env = example_env
        and self = backbone_only_task and w = example_world]
  by (simp add: endswith_def has_task_weights_def backbone_only_task_def
      example_backbone_def)

text \<open>
  C10. For every task and every path that does not end in \<^verbatim>\<open>.weights.h5\<close>,
  \<^verbatim>\<open>load_task_weights\<close> raises a \<^verbatim>\<open>ValueError\<close>, and the state after the call is the
  state before it: the weight reader was not called, and every weight tensor, of the
  task and of its backbone, holds the value it held.
\<close>

theorem load_task_weights_suffix_guard:
  "\<not> endswith filepath ''.weights.h5'' \<Longrightarrow>
   load_task_weights env self filepath w = (Inl (ValueError load_suffix_message), w)"
  by (simp add: load_task_weights_def raise_def)

theorem load_task_weights_suffix_guard_witness:
  "load_task_weights example_env head_task ''weights.bin'' example_world
     = (Inl (ValueError load_suffix_message), example_world)"
  using
    load_task_weights_suffix_guard
      [where filepath = "''weights.bin''" and env = example_env
        and self = head_task and w = example_world]
  by (simp add: endswith_def)

section \<open>Task: saving to a preset directory\<close>

text \<open>
  C9. For every task, \<^verbatim>\<open>save_to_preset\<close> raises a \<^verbatim>\<open>ValueError\<close> when the
  preprocessor is \<^verbatim>\<open>None\<close>, before anything is written. When the preprocessor is set
  (with its tokenizer), the backbone is attached, no collaborator raises and the
  weights file name \<^verbatim>\<open>TASK_WEIGHTS_FILE\<close> ends in \<^verbatim>\<open>.weights.h5\<close>, the call succeeds
  and makes exactly these calls, in this order: the task's configuration is written;
  the task-specific weights are written, exactly when the task has some; the
  preprocessor saves itself (its configuration, then its tokenizer); the backbone
  saves itself.
\<close>

theorem save_to_preset_order:
  "(preprocessor self = None \<longrightarrow>
      save_to_preset env self preset_dir w = (Inl (ValueError no_preprocessor_message), w))
   \<and> (preprocessor self = Some p \<longrightarrow> tokenizer p = Some tk \<longrightarrow>
       backbone self = Some b \<longrightarrow> (\<forall>w ev. raises env w ev = None) \<longrightarrow>
       endswith (TASK_WEIGHTS_FILE env) ''.weights.h5'' \<longrightarrow>
      save_to_preset env self preset_dir w =
        (Inr (),
         w\<lparr>calls := calls w
            @ [SaveSerializedObject (TaskObj (task_name self)) preset_dir
                 (TASK_CONFIG_FILE env)]
            @ (if \<not> set (weights self) \<subseteq> set (bb_weights b)
               then [SaveWeights (TaskObj (task_name self))
                       (os_path_join preset_dir (TASK_WEIGHTS_FILE env))
                       (set (flatten_layers b))]
               else [])
            @ [SaveSerializedObject (PreprocessorObj (pp_name p)) preset_dir
                 (PREPROCESSOR_CONFIG_FILE env),
               TokenizerSaveToPreset tk preset_dir,
               BackboneSaveToPreset (bb_name b) preset_dir]\<rparr>))"
  by (auto simp: save_to_preset_def raise_def and_then_apply lift_def ret_def
      collab_def save_task_weights_def Preprocessor_save_to_preset_def
      backbone_layer_ids_def has_task_weights_def endswith_os_path_join)

theorem save_to_preset_order_witness:
  "save_to_preset example_env (head_task\<lparr>preprocessor := None\<rparr>) ''out'' example_world
     = (Inl (ValueError no_preprocessor_message), example_world)
   \<and> save_to_preset example_env head_task ''out'' example_world
     = (Inr (),
        example_world\<lparr>calls :=
          [SaveSerializedObject (TaskObj ''bert_classifier'') ''out'' ''task.json'',
           SaveWeights (TaskObj ''bert_classifier'') ''out/task.weights.h5'' {10, 11},
           SaveSerializedObject (PreprocessorObj ''bert_preprocessor'') ''out''
             ''preprocessor.json'',
           TokenizerSaveToPreset ''bert_tokenizer'' ''out'',
           BackboneSaveToPreset ''bert_backbone'' ''out'']\<rparr>)
   \<and> save_to_preset example_env backbone_only_task ''out'' example_world
     = (Inr (),
        example_world\<lparr>calls :=
          [SaveSerializedObject (TaskObj ''bert_classifier'') ''out'' ''task.json'',
           SaveSerializedObject (PreprocessorObj ''bert_preprocessor'') ''out''
             ''preprocessor.json'',
           TokenizerSaveToPreset ''bert_tokenizer'' ''out'',
           BackboneSaveToPreset ''bert_backbone'' ''out'']\<rparr>)"
  using
    save_to_preset_order
      [where self = "head_task\<lparr>preprocessor := None\<rparr>" and env = example_env
        and preset_dir = "''out''" and w = example_world]
    save_to_preset_order
      [where self = head_task and p = example_preprocessor
        and tk = "''bert_tokenizer''" and b = example_backbone
        and env = example_env and preset_dir = "''out''" and w = example_world]
    save_to_preset_order
      [where self = backbone_only_task and p = example_preprocessor
        and tk = "''bert_tokenizer''" and b = example_backbone
        and env = example_env and preset_dir = "''out''" and w = example_world]
  by (simp add: example_defs endswith_def os_path_join_def)

section \<open>Presets of a class\<close>

text \<open>
  A dictionary updated from a list of dictionaries, one \<^verbatim>\<open>update\<close> after the other:
  its keys are the keys of all of them, a key none of the updates has keeps its
  value, and a key keeps the value of the last update that has it.
\<close>

lemma foldl_update_dom:
  "dom (foldl (\<lambda>presets s. presets ++ f s) base xs) = dom base \<union> (\<Union>s\<in>set xs. dom (f s))"
  by (induction xs arbitrary: base) auto

lemma foldl_update_absent:
  "(\<forall>s\<in>set xs. f s k = None) \<Longrightarrow> foldl (\<lambda>presets s. presets ++ f s) base xs k = base k"
  by (induction xs arbitrary: base) (auto simp: map_add_def)

lemma foldl_update_last:
  assumes "f s k = Some v" and "\<forall>y\<in>set ys. f y k = None"
  shows "foldl (\<lambda>presets s. presets ++ f s) base (xs @ s # ys) k = Some v"
  using assms by (simp add: foldl_update_absent)

lemma Task_presets_unfold:
  "Task_presets env c =
     foldl (\<lambda>presets s. presets ++ Task_presets env s)
       (case backbone_cls c of None \<Rightarrow> list_presets c
        | Some b \<Rightarrow> list_presets c ++ backbone_presets env b)
       (list_subclasses c)"
  by (cases c) (simp split: option.split)

lemma Preprocessor_presets_unfold:
  "Preprocessor_presets env c =
     foldl (\<lambda>presets s. presets ++ Preprocessor_presets env s)
       (case tokenizer_cls c of None \<Rightarrow> list_presets c
        | Some t \<Rightarrow> list_presets c ++ tokenizer_presets env t)
       (list_subclasses c)"
  by (cases c) (simp split: option.split)

lemma Task_presets_dom:
  "dom (Task_presets env c) =
     dom (list_presets c)
     \<union> (case backbone_cls c of None \<Rightarrow> {} | Some b \<Rightarrow> dom (backbone_presets env b))
     \<union> (\<Union>s\<in>set (list_subclasses c). dom (Task_presets env s))"
  by (subst Task_presets_unfold) (auto simp: foldl_update_dom split: option.splits)

lemma Task_presets_subclass:
  assumes "list_subclasses c = xs @ s # ys" and "Task_presets env s k = Some v"
    and "\<forall>y\<in>set ys. Task_presets env y k = None"
  shows "Task_presets env c k = Some v"
proof -
  have "Task_presets env c k =
          foldl (\<lambda>presets s. presets ++ Task_presets env s)
            (case backbone_cls c of None \<Rightarrow> list_presets c
             | Some x \<Rightarrow> list_presets c ++ backbone_presets env x)
            (xs @ s # ys) k"
    by (subst Task_presets_unfold) (simp only: assms(1))
  also have "\<dots> = Some v"
    using assms(2,3) by (rule foldl_update_last)
  finally show ?thesis .
qed

lemma Task_presets_backbone:
  assumes "\<forall>s\<in>set (list_subclasses c). Task_presets env s k = None"
    and "backbone_cls c = Some b" and "backbone_presets env b k = Some v"
  shows "Task_presets env c k = Some v"
proof -
  have "Task_presets env c k =
          (case backbone_cls c of None \<Rightarrow> list_presets c
           | Some x \<Rightarrow> list_presets c ++ backbone_presets env x) k"
    by (subst Task_presets_unfold)
      (rule foldl_update_absent [where f = "Task_presets env", OF assms(1)])
  also have "\<dots> = Some v"
    using assms(2,3) by simp
  finally show ?thesis .
qed

lemma Task_presets_own:
  assumes "\<forall>s\<in>set (list_subclasses c). Task_presets env s k = None"
    and "\<forall>b. backbone_cls c = Some b \<longrightarrow> backbone_presets env b k = None"
  shows "Task_presets env c k = list_presets c k"
proof -
  have "Task_presets env c k =
          (case backbone_cls c of None \<Rightarrow> list_presets c
           | Some x \<Rightarrow> list_presets c ++ backbone_presets env x) k"
    by (subst Task_presets_unfold)
      (rule foldl_update_absent [where f = "Task_presets env", OF assms(1)])
  also have "\<dots> = list_presets c k"
    using assms(2) by (simp add: map_add_def split: option.splits)
  finally show ?thesis .
qed

lemma Preprocessor_presets_dom:
  "dom (Preprocessor_presets env c) =
     dom (list_presets c)
     \<union> (case tokenizer_cls c of None \<Rightarrow> {} | Some t \<Rightarrow> dom (tokenizer_presets env t))
     \<union> (\<Union>s\<in>set (list_subclasses c). dom (Preprocessor_presets env s))"
  by (subst Preprocessor_presets_unfold) (auto simp: foldl_update_dom split: option.splits)

lemma Preprocessor_presets_subclass:
  assumes "list_subclasses c = xs @ s # ys" and "Preprocessor_presets env s k = Some v"
    and "\<forall>y\<in>set ys. Preprocessor_presets env y k = None"
  shows "Preprocessor_presets env c k = Some v"
proof -
  have "Preprocessor_presets env c k =
          foldl (\<lambda>presets s. presets ++ Preprocessor_presets env s)
            (case tokenizer_cls c of None \<Rightarrow> list_presets c
             | Some x \<Rightarrow> list_presets c ++ tokenizer_presets env x)
            (xs @ s # ys) k"
    by (subst Preprocessor_presets_unfold) (simp only: assms(1))
  also have "\<dots> = Some v"
    using assms(2,3) by (rule foldl_update_last)
  finally show ?thesis .
qed

lemma Preprocessor_presets_tokenizer:
  assumes "\<forall>s\<in>set (list_subclasses c). Preprocessor_presets env s k = None"
    and "tokenizer_cls c = Some t" and "tokenizer_presets env t k = Some v"
  shows "Preprocessor_presets env c k = Some v"
proof -
  have "Preprocessor_presets env c k =
          (case tokenizer_cls c of None \<Rightarrow> list_presets c
           | Some x \<Rightarrow> list_presets c ++ tokenizer_presets env x) k"
    by (subst Preprocessor_presets_unfold)
      (rule foldl_update_absent [where f = "Preprocessor_presets env", OF assms(1)])
  also have "\<dots> = Some v"
    using assms(2,3) by simp
  finally show ?thesis .
qed

lemma Preprocessor_presets_own:
  assumes "\<forall>s\<in>set (list_subclasses c). Preprocessor_presets env s k = None"
    and "\<forall>t. tokenizer_cls c = Some t \<longrightarrow> tokenizer_presets env t k = None"
  shows "Preprocessor_presets env c k = list_presets c k"
proof -
  have "Preprocessor_presets env c k =
          (case tokenizer_cls c of None \<Rightarrow> list_presets c
           | Some x \<Rightarrow> list_presets c ++ tokenizer_presets env x) k"
    by (subst Preprocessor_presets_unfold)
      (rule foldl_update_absent [where f = "Preprocessor_presets env", OF assms(1)])
  also have "\<dots> = list_presets c k"
    using assms(2) by (simp add: map_add_def split: option.splits)
  finally show ?thesis .
qed


text \<open>
  The direction in which the enumerations are nested: what a class registers itself,
  and what any of its subclasses enumerates, is among the keys the class enumerates.
\<close>

lemma Task_presets_own_keys:
  "dom (list_presets c) \<subseteq> dom (Task_presets env c)"
  using Task_presets_dom [of env c] by blast

lemma Task_presets_subclass_keys:
  "sub \<in> set (list_subclasses c) \<Longrightarrow> dom (Task_presets env sub) \<subseteq> dom (Task_presets env c)"
  using Task_presets_dom [of env c] by blast

lemma Preprocessor_presets_own_keys:
  "dom (list_presets c) \<subseteq> dom (Preprocessor_presets env c)"
  using Preprocessor_presets_dom [of env c] by blast

lemma Preprocessor_presets_subclass_keys:
  "sub \<in> set (list_subclasses c) \<Longrightarrow>
   dom (Preprocessor_presets env sub) \<subseteq> dom (Preprocessor_presets env c)"
  using Preprocessor_presets_dom [of env c] by blast

text \<open>
  Two points on which the enumeration differs from a first-insertion-wins union that
  every subclass inherits. First insertion does not win: \<^verbatim>\<open>BertClassifier\<close>
  registers the preset \<^verbatim>\<open>bert_base_en\<close> itself, and its backbone class has a preset
  of that name; the entry of \<^verbatim>\<open>BertClassifier.presets\<close> is the backbone's, not the
  one inserted first. And the presets of a subclass are not a superset of the presets
  of its base class: \<^verbatim>\<open>BertClassifier\<close> is a subclass of \<^verbatim>\<open>Classifier\<close>, the preset
  \<^verbatim>\<open>distil_bert_sst2\<close> is in \<^verbatim>\<open>Classifier.presets\<close> (collected from the subclass
  \<^verbatim>\<open>DistilBertClassifier\<close>) and is not in \<^verbatim>\<open>BertClassifier.presets\<close>. Both hold for
  the \<^verbatim>\<open>Preprocessor\<close> classes as well.
\<close>

theorem presets_claim_counterexample:
  "list_presets BertClassifier ''bert_base_en'' = Some ''classifier entry''
   \<and> Task_presets example_env BertClassifier ''bert_base_en'' = Some ''backbone entry''
   \<and> list_presets BertPreprocessor ''bert_base_en'' = Some ''preprocessor entry''
   \<and> Preprocessor_presets example_env BertPreprocessor ''bert_base_en''
       = Some ''tokenizer entry''
   \<and> BertClassifier \<in> set (list_subclasses Classifier)
   \<and> Task_presets example_env Classifier ''distil_bert_sst2'' = Some ''classifier entry''
   \<and> Task_presets example_env BertClassifier ''distil_bert_sst2'' = None
   \<and> \<not> dom (Task_presets example_env Classifier)
         \<subseteq> dom (Task_presets example_env BertClassifier)
   \<and> BertPreprocessor \<in> set (list_subclasses TextClassifierPreprocessor)
   \<and> Preprocessor_presets example_env TextClassifierPreprocessor ''distil_bert_sst2''
       = Some ''preprocessor entry''
   \<and> Preprocessor_presets example_env BertPreprocessor ''distil_bert_sst2'' = None
   \<and> \<not> dom (Preprocessor_presets example_env TextClassifierPreprocessor)
         \<subseteq> dom (Preprocessor_presets example_env BertPreprocessor)"
  by (simp add: example_defs)

text \<open>
  C2, amended. For every class, the keys of \<^verbatim>\<open>presets\<close> are the keys registered on
  the class, together with the keys of the presets of its backbone class (for a
  \<^verbatim>\<open>Preprocessor\<close>: of its tokenizer class), when set, and the keys of the presets of
  every subclass \<^verbatim>\<open>list_subclasses\<close> returns. So the keys a class enumerates are a
  superset of the keys it registers itself and of the keys each of its subclasses
  enumerates: the enumeration of the base class contains that of the subclass, not
  the other way round. Under a key that several of them have, the last update wins:
  the entry of the last subclass that has the key; with no such subclass, the entry
  of the backbone (tokenizer) class; and only when neither has the key, the entry
  registered on the class itself.
\<close>

theorem presets_union_last_update_wins:
  "dom (Task_presets env c) =
     dom (list_presets c)
     \<union> (case backbone_cls c of None \<Rightarrow> {} | Some b \<Rightarrow> dom (backbone_presets env b))
     \<union> (\<Union>s\<in>set (list_subclasses c). dom (Task_presets env s))
   \<and> dom (list_presets c) \<subseteq> dom (Task_presets env c)
   \<and> (sub \<in> set (list_subclasses c) \<longrightarrow>
        dom (Task_presets env sub) \<subseteq> dom (Task_presets env c))
   \<and> (list_subclasses c = xs @ s # ys \<longrightarrow> Task_presets env s k = Some v \<longrightarrow>
        (\<forall>y\<in>set ys. Task_presets env y k = None) \<longrightarrow> Task_presets env c k = Some v)
   \<and> ((\<forall>s\<in>set (list_subclasses c). Task_presets env s k = None) \<longrightarrow>
        backbone_cls c = Some b \<longrightarrow> backbone_presets env b k = Some v \<longrightarrow>
        Task_presets env c k = Some v)
   \<and> ((\<forall>s\<in>set (list_subclasses c). Task_presets env s k = None) \<longrightarrow>
        (\<forall>b. backbone_cls c = Some b \<longrightarrow> backbone_presets env b k = None) \<longrightarrow>
        Task_presets env c k = list_presets c k)
   \<and> dom (Preprocessor_presets env c) =
     dom (list_presets c)
     \<union> (case tokenizer_cls c of None \<Rightarrow> {} | Some t \<Rightarrow> dom (tokenizer_presets env t))
     \<union> (\<Union>s\<in>set (list_subclasses c). dom (Preprocessor_presets env s))
   \<and> dom (list_presets c) \<subseteq> dom (Preprocessor_presets env c)
   \<and> (sub \<in> set (list_subclasses c) \<longrightarrow>
        dom (Preprocessor_presets env sub) \<subseteq> dom (Preprocessor_presets env c))
   \<and> (list_subclasses c = xs @ s # ys \<longrightarrow> Preprocessor_presets env s k = Some v \<longrightarrow>
        (\<forall>y\<in>set ys. Preprocessor_presets env y k = None) \<longrightarrow>
        Preprocessor_presets env c k = Some v)
   \<and> ((\<forall>s\<in>set (list_subclasses c). Preprocessor_presets env s k = None) \<longrightarrow>
        tokenizer_cls c = Some t \<longrightarrow> tokenizer_presets env t k = Some v \<longrightarrow>
        Preprocessor_presets env c k = Some v)
   \<and> ((\<forall>s\<in>set (list_subclasses c). Preprocessor_presets env s k = None) \<longrightarrow>
        (\<forall>t. tokenizer_cls c = Some t \<longrightarrow> tokenizer_presets env t k = None) \<longrightarrow>
        Preprocessor_presets env c k = list_presets c k)"
proof (intro conjI impI)
  show "dom (Task_presets env c) =
     dom (list_presets c)
     \<union> (case backbone_cls c of None \<Rightarrow> {} | Some b \<Rightarrow> dom (backbone_presets env b))
     \<union> (\<Union>s\<in>set (list_subclasses c). dom (Task_presets env s))"
    by (rule Task_presets_dom)
  show "dom (list_presets c) \<subseteq> dom (Task_presets env c)"
    by (rule Task_presets_own_keys)
  show "dom (Task_presets env sub) \<subseteq> dom (Task_presets env c)"
    if "sub \<in> set (list_subclasses c)"
    using that by (rule Task_presets_subclass_keys)
  show "Task_presets env c k = Some v"
    if "list_subclasses c = xs @ s # ys" "Task_presets env s k = Some v"
      "\<forall>y\<in>set ys. Task_presets env y k = None"
    using that by (rule Task_presets_subclass)
  show "Task_presets env c k = Some v"
    if "\<forall>s\<in>set (list_subclasses c). Task_presets env s k = None"
      "backbone_cls c = Some b" "backbone_presets env b k = Some v"
    using that by (rule Task_presets_backbone)
  show "Task_presets env c k = list_presets c k"
    if "\<forall>s\<in>set (list_subclasses c). Task_presets env s k = None"
      "\<forall>b. backbone_cls c = Some b \<longrightarrow> backbone_presets env b k = None"
    using that by (rule Task_presets_own)
  show "dom (Preprocessor_presets env c) =
     dom (list_presets c)
     \<union> (case tokenizer_cls c of None \<Rightarrow> {} | Some t \<Rightarrow> dom (tokenizer_presets env t))
     \<union> (\<Union>s\<in>set (list_subclasses c). dom (Preprocessor_presets env s))"
    by (rule Preprocessor_presets_dom)
  show "dom (list_presets c) \<subseteq> dom (Preprocessor_presets env c)"
    by (rule Preprocessor_presets_own_keys)
  show "dom (Preprocessor_presets env sub) \<subseteq> dom (Preprocessor_presets env c)"
    if "sub \<in> set (list_subclasses c)"
    using that by (rule Preprocessor_presets_subclass_keys)
  show "Preprocessor_presets env c k = Some v"
    if "list_subclasses c = xs @ s # ys" "Preprocessor_presets env s k = Some v"
      "\<forall>y\<in>set ys. Preprocessor_presets env y k = None"
    using that by (rule Preprocessor_presets_subclass)
  show "Preprocessor_presets env c k = Some v"
    if "\<forall>s\<in>set (list_subclasses c). Preprocessor_presets env s k = None"
      "tokenizer_cls c = Some t" "tokenizer_presets env t k = Some v"
    using that by (rule Preprocessor_presets_tokenizer)
  show "Preprocessor_presets env c k = list_presets c k"
    if "\<forall>s\<in>set (list_subclasses c). Preprocessor_presets env s k = None"
      "\<forall>t. tokenizer_cls c = Some t \<longrightarrow> tokenizer_presets env t k = None"
    using that by (rule Preprocessor_presets_own)
qed


theorem presets_union_last_update_wins_witness:
  "Task_presets example_env Classifier ''distil_bert_sst2'' = Some ''classifier entry''
   \<and> Task_presets example_env BertClassifier ''bert_base_en'' = Some ''backbone entry''
   \<and> Task_presets example_env DistilBertClassifier ''distil_bert_sst2''
       = Some ''classifier entry''
   \<and> Preprocessor_presets example_env TextClassifierPreprocessor ''distil_bert_sst2''
       = Some ''preprocessor entry''
   \<and> Preprocessor_presets example_env BertPreprocessor ''bert_base_en''
       = Some ''tokenizer entry''
   \<and> Preprocessor_presets example_env DistilBertPreprocessor ''distil_bert_sst2''
       = Some ''preprocessor entry''
   \<and> dom (Task_presets example_env Classifier) = {''distil_bert_sst2'', ''bert_base_en''}
   \<and> dom (Task_presets example_env BertClassifier)
       \<subseteq> dom (Task_presets example_env Classifier)
   \<and> dom (Preprocessor_presets example_env BertPreprocessor)
       \<subseteq> dom (Preprocessor_presets example_env TextClassifierPreprocessor)"
  using
    presets_union_last_update_wins
      [where env = example_env and c = Classifier and xs = "[BertClassifier]"
        and s = DistilBertClassifier and ys = "[]" and k = "''distil_bert_sst2''"
        and v = "''classifier entry''" and sub = BertClassifier]
    presets_union_last_update_wins
      [where env = example_env and c = BertClassifier and b = "''BertBackbone''"
        and k = "''bert_base_en''" and v = "''backbone entry''"]
    presets_union_last_update_wins
      [where env = example_env and c = DistilBertClassifier
        and k = "''distil_bert_sst2''"]
    presets_union_last_update_wins
      [where env = example_env and c = TextClassifierPreprocessor
        and xs = "[BertPreprocessor]" and s = DistilBertPreprocessor and ys = "[]"
        and k = "''distil_bert_sst2''" and v = "''preprocessor entry''"
        and sub = BertPreprocessor]
    presets_union_last_update_wins
      [where env = example_env and c = BertPreprocessor and t = "''BertTokenizer''"
        and k = "''bert_base_en''" and v = "''tokenizer entry''"]
    presets_union_last_update_wins
      [where env = example_env and c = DistilBertPreprocessor
        and k = "''distil_bert_sst2''"]
  by (simp add: example_defs)


section \<open>\<^verbatim>\<open>from_preset\<close>\<close>

lemma Task_from_preset_found:
  assumes "\<forall>w ev. raises env w ev = None" and "cname cls \<noteq> ''Task''"
    and "(if backbone_cls cls \<noteq> Some (preset_backbone_cls env preset)
          then find_subclass preset cls (preset_backbone_cls env preset)
          else Inr cls) = Inr found"
  shows "Task_from_preset env cls preset load_weights kwargs w =
           (Inr (TaskInstance (cname found) preset load_weights kwargs),
            w\<lparr>calls := calls w @ [GetPresetLoader preset, CheckBackboneClass preset,
                 LoadTask preset (cname found) load_weights kwargs]\<rparr>)"
  using assms
  by (auto simp: Task_from_preset_def get_preset_loader_def check_backbone_class_def
      load_task_def and_then_apply collab_def ret_def lift_def split: if_splits)

lemma Task_from_preset_not_found:
  assumes "\<forall>w ev. raises env w ev = None" and "cname cls \<noteq> ''Task''"
    and "backbone_cls cls \<noteq> Some (preset_backbone_cls env preset)"
    and "find_subclass preset cls (preset_backbone_cls env preset) = Inl e"
  shows "Task_from_preset env cls preset load_weights kwargs w =
           (Inl e, w\<lparr>calls := calls w @ [GetPresetLoader preset, CheckBackboneClass preset]\<rparr>)"
  using assms
  by (auto simp: Task_from_preset_def get_preset_loader_def check_backbone_class_def
      load_task_def and_then_apply collab_def ret_def lift_def split: if_splits)

lemma Preprocessor_from_preset_found:
  assumes "\<forall>w ev. raises env w ev = None" and "cname cls \<noteq> ''Preprocessor''"
    and "(if backbone_cls cls \<noteq> Some (preset_backbone_cls env preset)
          then find_subclass preset cls (preset_backbone_cls env preset)
          else Inr cls) = Inr found"
  shows "Preprocessor_from_preset env cls preset kwargs w =
           (Inr (PreprocessorInstance (cname found) preset kwargs),
            w\<lparr>calls := calls w @ [GetPresetLoader preset, CheckBackboneClass preset,
                 LoadPreprocessor preset (cname found) kwargs]\<rparr>)"
  using assms
  by (auto simp: Preprocessor_from_preset_def get_preset_loader_def
      check_backbone_class_def load_preprocessor_def and_then_apply collab_def ret_def
      lift_def split: if_splits)

lemma Preprocessor_from_preset_not_found:
  assumes "\<forall>w ev. raises env w ev = None" and "cname cls \<noteq> ''Preprocessor''"
    and "backbone_cls cls \<noteq> Some (preset_backbone_cls env preset)"
    and "find_subclass preset cls (preset_backbone_cls env preset) = Inl e"
  shows "Preprocessor_from_preset env cls preset kwargs w =
           (Inl e, w\<lparr>calls := calls w @ [GetPresetLoader preset, CheckBackboneClass preset]\<rparr>)"
  using assms
  by (auto simp: Preprocessor_from_preset_def get_preset_loader_def
      check_backbone_class_def load_preprocessor_def and_then_apply collab_def ret_def
      lift_def split: if_splits)

lemma find_subclass_one:
  "filter (\<lambda>x. backbone_cls x = Some b) (list_subclasses cls) = [s] \<Longrightarrow>
   find_subclass preset cls b = Inr s"
  by (simp add: find_subclass_def)

lemma find_subclass_zero:
  "filter (\<lambda>x. backbone_cls x = Some b) (list_subclasses cls) = [] \<Longrightarrow>
   find_subclass preset cls b = Inl (UnsupportedPresetError preset b)"
  by (simp add: find_subclass_def)


text \<open>
  C1. For every preset, with \<open>preset_backbone_cls env preset\<close> the backbone class its
  configuration declares, and collaborators that do not raise: \<^verbatim>\<open>from_preset\<close>
  called on a class other than the base class (\<^verbatim>\<open>Task\<close>, \<^verbatim>\<open>Preprocessor\<close>) whose
  \<^verbatim>\<open>backbone_cls\<close> is that class constructs the invoking class, whatever its
  subclasses are; otherwise, when exactly one registered subclass has that
  \<^verbatim>\<open>backbone_cls\<close>, it returns an instance of that subclass; and when none has, it
  raises \<open>UnsupportedPresetError\<close>, after the preset's configuration was read and
  before anything is constructed.
\<close>

theorem from_preset_resolves_class:
  "(\<forall>w ev. raises env w ev = None) \<longrightarrow>
   (cname cls \<noteq> ''Task'' \<longrightarrow>
      (backbone_cls cls = Some (preset_backbone_cls env preset) \<longrightarrow>
         Task_from_preset env cls preset load_weights kwargs w =
           (Inr (TaskInstance (cname cls) preset load_weights kwargs),
            w\<lparr>calls := calls w @ [GetPresetLoader preset, CheckBackboneClass preset,
                 LoadTask preset (cname cls) load_weights kwargs]\<rparr>))
    \<and> (backbone_cls cls \<noteq> Some (preset_backbone_cls env preset) \<longrightarrow>
       filter (\<lambda>x. backbone_cls x = Some (preset_backbone_cls env preset))
         (list_subclasses cls) = [s] \<longrightarrow>
         Task_from_preset env cls preset load_weights kwargs w =
           (Inr (TaskInstance (cname s) preset load_weights kwargs),
            w\<lparr>calls := calls w @ [GetPresetLoader preset, CheckBackboneClass preset,
                 LoadTask preset (cname s) load_weights kwargs]\<rparr>))
    \<and> (backbone_cls cls \<noteq> Some (preset_backbone_cls env preset) \<longrightarrow>
       filter (\<lambda>x. backbone_cls x = Some (preset_backbone_cls env preset))
         (list_subclasses cls) = [] \<longrightarrow>
         Task_from_preset env cls preset load_weights kwargs w =
           (Inl (UnsupportedPresetError preset (preset_backbone_cls env preset)),
            w\<lparr>calls := calls w @ [GetPresetLoader preset, CheckBackboneClass preset]\<rparr>)))
   \<and> (cname cls \<noteq> ''Preprocessor'' \<longrightarrow>
      (backbone_cls cls = Some (preset_backbone_cls env preset) \<longrightarrow>
         Preprocessor_from_preset env cls preset kwargs w =
           (Inr (PreprocessorInstance (cname cls) preset kwargs),
            w\<lparr>calls := calls w @ [GetPresetLoader preset, CheckBackboneClass preset,
                 LoadPreprocessor preset (cname cls) kwargs]\<rparr>))
    \<and> (backbone_cls cls \<noteq> Some (preset_backbone_cls env preset) \<longrightarrow>
       filter (\<lambda>x. backbone_cls x = Some (preset_backbone_cls env preset))
         (list_subclasses cls) = [s] \<longrightarrow>
         Preprocessor_from_preset env cls preset kwargs w =
           (Inr (PreprocessorInstance (cname s) preset kwargs),
            w\<lparr>calls := calls w @ [GetPresetLoader preset, CheckBackboneClass preset,
                 LoadPreprocessor preset (cname s) kwargs]\<rparr>))
    \<and> (backbone_cls cls \<noteq> Some (preset_backbone_cls env preset) \<longrightarrow>
       filter (\<lambda>x. backbone_cls x = Some (preset_backbone_cls env preset))
         (list_subclasses cls) = [] \<longrightarrow>
         Preprocessor_from_preset env cls preset kwargs w =
           (Inl (UnsupportedPresetError preset (preset_backbone_cls env preset)),
            w\<lparr>calls := calls w @ [GetPresetLoader preset, CheckBackboneClass preset]\<rparr>)))"
proof (intro impI conjI)
  assume q: "\<forall>w ev. raises env w ev = None"
  {
    assume c: "cname cls \<noteq> ''Task''"
    {
      assume "backbone_cls cls = Some (preset_backbone_cls env preset)"
      with q c show "Task_from_preset env cls preset load_weights kwargs w =
           (Inr (TaskInstance (cname cls) preset load_weights kwargs),
            w\<lparr>calls := calls w @ [GetPresetLoader preset, CheckBackboneClass preset,
                 LoadTask preset (cname cls) load_weights kwargs]\<rparr>)"
        by (intro Task_from_preset_found) simp_all
    }
    assume n: "backbone_cls cls \<noteq> Some (preset_backbone_cls env preset)"
    {
      assume "filter (\<lambda>x. backbone_cls x = Some (preset_backbone_cls env preset))
         (list_subclasses cls) = [s]"
      with q c n show "Task_from_preset env cls preset load_weights kwargs w =
           (Inr (TaskInstance (cname s) preset load_weights kwargs),
            w\<lparr>calls := calls w @ [GetPresetLoader preset, CheckBackboneClass preset,
                 LoadTask preset (cname s) load_weights kwargs]\<rparr>)"
        by (intro Task_from_preset_found) (simp_all add: find_subclass_one)
    }
    {
      assume "filter (\<lambda>x. backbone_cls x = Some (preset_backbone_cls env preset))
         (list_subclasses cls) = []"
      with q c n show "Task_from_preset env cls preset load_weights kwargs w =
           (Inl (UnsupportedPresetError preset (preset_backbone_cls env preset)),
            w\<lparr>calls := calls w @ [GetPresetLoader preset, CheckBackboneClass preset]\<rparr>)"
        by (intro Task_from_preset_not_found) (simp_all add: find_subclass_zero)
    }
  }
  {
    assume c: "cname cls \<noteq> ''Preprocessor''"
    {
      assume "backbone_cls cls = Some (preset_backbone_cls env preset)"
      with q c show "Preprocessor_from_preset env cls preset kwargs w =
           (Inr (PreprocessorInstance (cname cls) preset kwargs),
            w\<lparr>calls := calls w @ [GetPresetLoader preset, CheckBackboneClass preset,
                 LoadPreprocessor preset (cname cls) kwargs]\<rparr>)"
        by (intro Preprocessor_from_preset_found) simp_all
    }
    assume n: "backbone_cls cls \<noteq> Some (preset_backbone_cls env preset)"
    {
      assume "filter (\<lambda>x. backbone_cls x = Some (preset_backbone_cls env preset))
         (list_subclasses cls) = [s]"
      with q c n show "Preprocessor_from_preset env cls preset kwargs w =
           (Inr (PreprocessorInstance (cname s) preset kwargs),
            w\<lparr>calls := calls w @ [GetPresetLoader preset, CheckBackboneClass preset,
                 LoadPreprocessor preset (cname s) kwargs]\<rparr>)"
        by (intro Preprocessor_from_preset_found) (simp_all add: find_subclass_one)
    }
    {
      assume "filter (\<lambda>x. backbone_cls x = Some (preset_backbone_cls env preset))
         (list_subclasses cls) = []"
      with q c n show "Preprocessor_from_preset env cls preset kwargs w =
           (Inl (UnsupportedPresetError preset (preset_backbone_cls env preset)),
            w\<lparr>calls := calls w @ [GetPresetLoader preset, CheckBackboneClass preset]\<rparr>)"
        by (intro Preprocessor_from_preset_not_found) (simp_all add: find_subclass_zero)
    }
  }
qed


text \<open>
  The preset of \<^verbatim>\<open>convert_distilbert_test.py\<close>: \<^verbatim>\<open>Classifier.from_preset\<close> returns
  a \<^verbatim>\<open>DistilBertClassifier\<close>, as the test asserts.
\<close>

theorem from_preset_resolves_class_witness:
  "Task_from_preset example_env DistilBertClassifier distilbert_preset False
       [(''num_classes'', ''2'')] example_world
     = (Inr (TaskInstance ''DistilBertClassifier'' distilbert_preset False
               [(''num_classes'', ''2'')]),
        example_world\<lparr>calls :=
          [GetPresetLoader distilbert_preset, CheckBackboneClass distilbert_preset,
           LoadTask distilbert_preset ''DistilBertClassifier'' False
             [(''num_classes'', ''2'')]]\<rparr>)
   \<and> Task_from_preset example_env Classifier distilbert_preset False
       [(''num_classes'', ''2'')] example_world
     = (Inr (TaskInstance ''DistilBertClassifier'' distilbert_preset False
               [(''num_classes'', ''2'')]),
        example_world\<lparr>calls :=
          [GetPresetLoader distilbert_preset, CheckBackboneClass distilbert_preset,
           LoadTask distilbert_preset ''DistilBertClassifier'' False
             [(''num_classes'', ''2'')]]\<rparr>)
   \<and> Task_from_preset example_env BertClassifier distilbert_preset False
       [(''num_classes'', ''2'')] example_world
     = (Inl (UnsupportedPresetError distilbert_preset ''DistilBertBackbone''),
        example_world\<lparr>calls :=
          [GetPresetLoader distilbert_preset, CheckBackboneClass distilbert_preset]\<rparr>)
   \<and> Preprocessor_from_preset example_env DistilBertPreprocessor distilbert_preset []
       example_world
     = (Inr (PreprocessorInstance ''DistilBertPreprocessor'' distilbert_preset []),
        example_world\<lparr>calls :=
          [GetPresetLoader distilbert_preset, CheckBackboneClass distilbert_preset,
           LoadPreprocessor distilbert_preset ''DistilBertPreprocessor'' []]\<rparr>)
   \<and> Preprocessor_from_preset example_env TextClassifierPreprocessor distilbert_preset []
       example_world
     = (Inr (PreprocessorInstance ''DistilBertPreprocessor'' distilbert_preset []),
        example_world\<lparr>calls :=
          [GetPresetLoader distilbert_preset, CheckBackboneClass distilbert_preset,
           LoadPreprocessor distilbert_preset ''DistilBertPreprocessor'' []]\<rparr>)
   \<and> Preprocessor_from_preset example_env BertPreprocessor distilbert_preset []
       example_world
     = (Inl (UnsupportedPresetError distilbert_preset ''DistilBertBackbone''),
        example_world\<lparr>calls :=
          [GetPresetLoader distilbert_preset, CheckBackboneClass distilbert_preset]\<rparr>)"
  using
    from_preset_resolves_class
      [where env = example_env and cls = DistilBertClassifier
        and preset = distilbert_preset and load_weights = False
        and kwargs = "[(''num_classes'', ''2'')]" and w = example_world]
    from_preset_resolves_class
      [where env = example_env and cls = Classifier and s = DistilBertClassifier
        and preset = distilbert_preset and load_weights = False
        and kwargs = "[(''num_classes'', ''2'')]" and w = example_world]
    from_preset_resolves_class
      [where env = example_env and cls = BertClassifier
        and preset = distilbert_preset and load_weights = False
        and kwargs = "[(''num_classes'', ''2'')]" and w = example_world]
    from_preset_resolves_class
      [where env = example_env and cls = DistilBertPreprocessor
        and preset = distilbert_preset and kwargs = "[]" and w = example_world]
    from_preset_resolves_class
      [where env = example_env and cls = TextClassifierPreprocessor
        and s = DistilBertPreprocessor
        and preset = distilbert_preset and kwargs = "[]" and w = example_world]
    from_preset_resolves_class
      [where env = example_env and cls = BertPreprocessor
        and preset = distilbert_preset and kwargs = "[]" and w = example_world]
  by (simp add: example_defs)


text \<open>
  C3. For every preset and all auxiliary arguments, \<^verbatim>\<open>from_preset\<close> called on the
  base class itself (\<^verbatim>\<open>Task\<close>, or \<^verbatim>\<open>Preprocessor\<close>) raises the \<^verbatim>\<open>ValueError\<close> that
  tells the caller to call a particular class instead; the state after the call is
  the state before it, so neither the preset loader nor any other collaborator was
  called, whatever they would have done.
\<close>

theorem from_preset_on_base_class_raises:
  "Task_from_preset env (Klass ''Task'' registered bcls tcls subclasses) preset
     load_weights kwargs w
     = (Inl (ValueError Task_direct_call_message), w)
   \<and> Preprocessor_from_preset env (Klass ''Preprocessor'' registered bcls tcls subclasses)
       preset kwargs w
     = (Inl (ValueError Preprocessor_direct_call_message), w)"
  by (simp add: Task_from_preset_def Preprocessor_from_preset_def raise_def)


theorem from_preset_on_base_class_raises_witness:
  "Task_from_preset example_env
       (Klass ''Task'' Map.empty None None [Classifier, BertClassifier, DistilBertClassifier])
       distilbert_preset True [] example_world
     = (Inl (ValueError Task_direct_call_message), example_world)
   \<and> Preprocessor_from_preset example_env
       (Klass ''Preprocessor'' Map.empty None None
          [TextClassifierPreprocessor, BertPreprocessor, DistilBertPreprocessor])
       distilbert_preset [] example_world
     = (Inl (ValueError Preprocessor_direct_call_message), example_world)"
  using
    from_preset_on_base_class_raises
      [where env = example_env and registered = Map.empty and bcls = None
        and tcls = None
        and subclasses = "[Classifier, BertClassifier, DistilBertClassifier]"
        and preset = distilbert_preset and load_weights = True and kwargs = "[]"
        and w = example_world]
    from_preset_on_base_class_raises
      [where env = example_env and registered = Map.empty and bcls = None
        and tcls = None
        and subclasses = "[TextClassifierPreprocessor, BertPreprocessor,
                           DistilBertPreprocessor]"
        and preset = distilbert_preset and load_weights = True and kwargs = "[]"
        and w = example_world]
  by simp

end
